theory Spec2Isabelle
  imports Complex_Main "HOL-Library.List_Lexorder"
begin

section \<open>Values: Python strings and pandas cells\<close>

text \<open>
  A Python \<open>str\<close> is a sequence of Unicode code points, so a string is modelled as the
  list of its code points. Python orders strings lexicographically by code point, which
  is the lexicographic order on lists. The function \<open>py\<close> turns an
  ASCII literal of the source into that representation.
\<close>

type_synonym pystr = "nat list"

definition py :: "string \<Rightarrow> pystr" where
  "py s = map of_char s"

text \<open>
  A cell of the data frame read by \<open>pd.read_csv\<close> from a text column holds either a
  string or the missing-value marker \<open>NaN\<close> (an empty CSV field). Columns that pandas
  would read as numbers are outside this model.
\<close>

datatype cell = Str pystr | NaN

text \<open>
  Python's \<open>==\<close> on two cells: two strings are equal when they are the same string; the
  float \<open>NaN\<close> is equal to nothing, not even to itself. pandas' elementwise
  \<open>series == "No"\<close> agrees with it.
\<close>

fun cell_eq :: "cell \<Rightarrow> cell \<Rightarrow> bool" where
  "cell_eq (Str s) (Str t) = (s = t)"
| "cell_eq _ _ = False"

text \<open>
  \<open>v in [s1, s2, ...]\<close> and pandas' \<open>series.isin([s1, s2, ...])\<close> for a list of strings:
  a missing cell is in no such list.
\<close>

fun isin :: "cell \<Rightarrow> pystr list \<Rightarrow> bool" where
  "isin v [] = False"
| "isin v (s # ss) = (cell_eq v (Str s) \<or> isin v ss)"

text \<open>\<open>str(v)\<close>: a string is itself, the float \<open>NaN\<close> prints as \<open>nan\<close>.\<close>

fun str :: "cell \<Rightarrow> pystr" where
  "str (Str s) = s"
| "str NaN = py ''nan''"

text \<open>
  \<open>str.isspace\<close> for one code point, the characters \<open>str.strip()\<close> removes: the ASCII
  controls 9 to 13 and 28 to 31, the space, and the Unicode spaces and separators.
\<close>

definition py_isspace :: "nat \<Rightarrow> bool" where
  "py_isspace c =
     ((9 \<le> c \<and> c \<le> 13) \<or> (28 \<le> c \<and> c \<le> 32) \<or> c = 133 \<or> c = 160 \<or> c = 5760
      \<or> (8192 \<le> c \<and> c \<le> 8202) \<or> c = 8232 \<or> c = 8233 \<or> c = 8239 \<or> c = 8287
      \<or> c = 12288)"

definition lstrip :: "pystr \<Rightarrow> pystr" where
  "lstrip s = dropWhile py_isspace s"

definition rstrip :: "pystr \<Rightarrow> pystr" where
  "rstrip s = rev (dropWhile py_isspace (rev s))"

definition strip :: "pystr \<Rightarrow> pystr" where
  "strip s = rstrip (lstrip s)"

section \<open>The data frame\<close>

text \<open>
  One row of the CSV table. \<open>df\<close> is the list of rows in input order. The column
  \<open>completeness_pct\<close> is added after loading, so a loaded row extends a CSV row.
  The date column is kept as read: no property below depends on its parsing. The
  column \<open>notes\<close> is the field \<open>notes_text\<close>.
\<close>

record csv_row =
  country :: cell
  last_update :: cell
  review_status :: cell
  prevention :: cell
  administrative :: cell
  criminal_justice :: cell
  surveillance :: cell
  rehab_reintegration :: cell
  women_children_notes :: cell
  notes_text :: cell

record row = csv_row +
  completeness_pct :: real

datatype column =
  Prevention | Administrative | Criminal_justice | Surveillance
  | Rehab_reintegration | Women_children_notes

text \<open>\<open>row[col]\<close> for a policy column.\<close>

fun getitem :: "'a csv_row_scheme \<Rightarrow> column \<Rightarrow> cell" where
  "getitem r Prevention = prevention r"
| "getitem r Administrative = administrative r"
| "getitem r Criminal_justice = criminal_justice r"
| "getitem r Surveillance = surveillance r"
| "getitem r Rehab_reintegration = rehab_reintegration r"
| "getitem r Women_children_notes = women_children_notes r"

definition POLICY_COLUMNS :: "column list" where
  "POLICY_COLUMNS =
     [Prevention, Administrative, Criminal_justice, Surveillance,
      Rehab_reintegration, Women_children_notes]"

fun CATEGORY_LABELS :: "column \<Rightarrow> pystr" where
  "CATEGORY_LABELS Prevention = py ''Prevention''"
| "CATEGORY_LABELS Administrative = py ''Administrative Measures''"
| "CATEGORY_LABELS Criminal_justice = py ''Criminal Justice''"
| "CATEGORY_LABELS Surveillance = py ''Surveillance/Monitoring''"
| "CATEGORY_LABELS Rehab_reintegration = py ''Rehabilitation/Reintegration''"
| "CATEGORY_LABELS Women_children_notes = py ''Women & Children''"

definition YES_SCORE :: "pystr \<rightharpoonup> real" where
  "YES_SCORE = [py ''Yes'' \<mapsto> 1, py ''Partial'' \<mapsto> 1 / 2, py ''No'' \<mapsto> 0]"

text \<open>\<open>d.get(k, default)\<close>.\<close>

definition dict_get :: "('k \<rightharpoonup> 'v) \<Rightarrow> 'k \<Rightarrow> 'v \<Rightarrow> 'v" where
  "dict_get d k dflt = (case d k of Some v \<Rightarrow> v | None \<Rightarrow> dflt)"

section \<open>Gap counting\<close>

text \<open>\<open>dataframe[col]\<close>: the column as a series, in row order.\<close>

definition series :: "'a csv_row_scheme list \<Rightarrow> column \<Rightarrow> cell list" where
  "series dataframe col = map (\<lambda>r. getitem r col) dataframe"

text \<open>\<open>(series == "No").sum()\<close>: the number of cells equal to the string.\<close>

definition count_eq :: "cell list \<Rightarrow> pystr \<Rightarrow> int" where
  "count_eq vs s = int (length (filter (\<lambda>v. cell_eq v (Str s)) vs))"

text \<open>The loop of \<open>count_gap_fields\<close> over the columns, with its accumulator.\<close>

fun gap_loop :: "'a csv_row_scheme list \<Rightarrow> column list \<Rightarrow> int \<Rightarrow> int" where
  "gap_loop dataframe [] gap_count = gap_count"
| "gap_loop dataframe (col # cols) gap_count =
     gap_loop dataframe cols (gap_count + count_eq (series dataframe col) (py ''No''))"

definition count_gap_fields :: "'a csv_row_scheme list \<Rightarrow> int" where
  "count_gap_fields dataframe = gap_loop dataframe POLICY_COLUMNS 0"

text \<open>
  The specification's reading. The six policy fields of a record are named one by
  one; go through the records, and in each record count those of the six values that
  are exactly the string \<open>No\<close>.
\<close>

definition policy_values :: "'a csv_row_scheme \<Rightarrow> cell list" where
  "policy_values r =
     [prevention r, administrative r, criminal_justice r, surveillance r,
      rehab_reintegration r, women_children_notes r]"

definition no_fields :: "'a csv_row_scheme \<Rightarrow> nat" where
  "no_fields r = length (filter (\<lambda>v. v = Str (py ''No'')) (policy_values r))"

definition spec_gapCount :: "'a csv_row_scheme list \<Rightarrow> int" where
  "spec_gapCount records = int (sum_list (map no_fields records))"

section \<open>Completeness scoring\<close>

text \<open>
  Floats are modelled by the real numbers they stand for. \<open>round(x, 1)\<close> rounds to
  the nearest multiple of one tenth, a tie going to the even digit. The mean of six
  scores from \<open>{0, 0.5, 1}\<close>, times 100, is a multiple of \<open>25/3\<close> and never lies
  within \<open>1/100\<close> of a tie, so the float computation of \<open>calc_country_completeness\<close>
  returns the float nearest to the decimal computed here.
\<close>

definition py_round1 :: "real \<Rightarrow> real" where
  "py_round1 x =
     (let y = x * 10; f = \<lfloor>y\<rfloor>; d = y - of_int f;
          n = (if d < 1 / 2 then f else if 1 / 2 < d then f + 1
               else if even f then f else f + 1)
      in of_int n / 10)"

text \<open>The loop of \<open>calc_country_completeness\<close>, appending to \<open>scores\<close>.\<close>

fun scores_loop :: "'a csv_row_scheme \<Rightarrow> column list \<Rightarrow> real list \<Rightarrow> real list" where
  "scores_loop row [] scores = scores"
| "scores_loop row (col # cols) scores =
     (let val = strip (str (getitem row col))
      in scores_loop row cols (scores @ [dict_get YES_SCORE val 0]))"

definition calc_country_completeness :: "'a csv_row_scheme \<Rightarrow> real" where
  "calc_country_completeness row =
     (let scores = scores_loop row POLICY_COLUMNS []
      in py_round1 ((sum_list scores / of_nat (length scores)) * 100))"

text \<open>
  The specification's scoring: each of the six field values is itself looked up in the
  table \<open>Yes \<mapsto> 1.0, Partial \<mapsto> 0.5, No \<mapsto> 0.0\<close>, and anything else scores \<open>0.0\<close>.
\<close>

definition spec_score :: "pystr \<Rightarrow> real" where
  "spec_score s =
     (if s = py ''Yes'' then 1 else if s = py ''Partial'' then 1 / 2
      else if s = py ''No'' then 0 else 0)"

fun spec_fieldScore :: "cell \<Rightarrow> real" where
  "spec_fieldScore (Str s) = spec_score s"
| "spec_fieldScore NaN = 0"

definition spec_completenessPct :: "'a csv_row_scheme \<Rightarrow> real" where
  "spec_completenessPct r =
     py_round1 (100 * (sum_list (map spec_fieldScore (policy_values r)) / 6))"

text \<open>The same, with the value converted to text and stripped before the lookup.\<close>

definition stripped_completenessPct :: "'a csv_row_scheme \<Rightarrow> real" where
  "stripped_completenessPct r =
     py_round1 (100 * (sum_list (map (\<lambda>v. spec_score (strip (str v))) (policy_values r)) / 6))"

section \<open>Loading\<close>

text \<open>
  \<open>pd.read_csv\<close> yields one row per data line of the table, an empty field read as
  \<open>NaN\<close>; the parsed table is the input here. The script then adds the column
  \<open>completeness_pct\<close> by applying \<open>calc_country_completeness\<close> to every row.
\<close>

definition load :: "csv_row list \<Rightarrow> row list" where
  "load table =
     map (\<lambda>r. csv_row.extend r (row.fields (calc_country_completeness r))) table"

text \<open>\<open>series.dropna()\<close>, \<open>series.unique()\<close> (first occurrences, in order), \<open>sorted\<close>.\<close>

fun dropna :: "cell list \<Rightarrow> pystr list" where
  "dropna [] = []"
| "dropna (Str s # vs) = s # dropna vs"
| "dropna (NaN # vs) = dropna vs"

definition unique :: "'a list \<Rightarrow> 'a list" where
  "unique xs = rev (remdups (rev xs))"

definition countries :: "'a csv_row_scheme list \<Rightarrow> pystr list" where
  "countries df = sort (unique (dropna (map country df)))"

section \<open>Filtering\<close>

text \<open>
  The sidebar selections: \<open>selected_countries\<close> is a list of entries of \<open>countries\<close>,
  \<open>selected_status\<close> a list of entries of \<open>Green, Yellow, Red\<close>, and
  \<open>selected_category\<close> is \<open>None\<close> for the choice \<open>Semua\<close> (no category focus).
\<close>

definition STATUS_OPTIONS :: "pystr list" where
  "STATUS_OPTIONS = [py ''Green'', py ''Yellow'', py ''Red'']"

definition filtered_df ::
  "'a csv_row_scheme list \<Rightarrow> pystr list \<Rightarrow> pystr list \<Rightarrow> column option
     \<Rightarrow> 'a csv_row_scheme list" where
  "filtered_df df selected_countries selected_status selected_category =
     (let filtered =
            filter (\<lambda>r. isin (country r) selected_countries
                        \<and> isin (review_status r) selected_status) df
      in case selected_category of
           None \<Rightarrow> filtered
         | Some cat \<Rightarrow> filter (\<lambda>r. isin (getitem r cat) [py ''Yes'', py ''Partial'']) filtered)"

section \<open>KPI summary\<close>

text \<open>
  \<open>round(series.mean(), 1)\<close> is computed in float64 arithmetic: at a rounding tie its
  result depends on the representation error of the mean, and on an empty series it
  is the float \<open>NaN\<close>. It is not modelled; it enters the summary as the parameter
  \<open>mean_round1\<close>, whose value \<open>None\<close> stands for \<open>NaN\<close>.
\<close>

record kpi =
  total_country :: nat
  green_count :: int
  yellow_count :: int
  red_count :: int
  avg_completeness :: "real option"
  gap_fields :: int

definition summarize :: "(real list \<Rightarrow> real option) \<Rightarrow> row list \<Rightarrow> kpi" where
  "summarize mean_round1 filtered =
     (let total = length filtered
      in \<lparr>total_country = total,
          green_count = count_eq (map review_status filtered) (py ''Green''),
          yellow_count = count_eq (map review_status filtered) (py ''Yellow''),
          red_count = count_eq (map review_status filtered) (py ''Red''),
          avg_completeness =
            (if total > 0 then mean_round1 (map completeness_pct filtered) else Some 0),
          gap_fields = (if total > 0 then count_gap_fields filtered else 0)\<rparr>)"

section \<open>Comparing two countries\<close>

text \<open>
  The note of one category: which branch of the \<open>if\<close>/\<open>elif\<close> chain is taken, and the
  text the branch builds.
\<close>

datatype verdict = Sama | A_lebih_kuat | B_lebih_kuat | Berbeda

definition compare_values :: "cell \<Rightarrow> cell \<Rightarrow> verdict" where
  "compare_values a_val b_val =
     (if cell_eq a_val b_val then Sama
      else if (cell_eq a_val (Str (py ''Yes'')) \<and> isin b_val [py ''Partial'', py ''No''])
              \<or> (cell_eq a_val (Str (py ''Partial'')) \<and> cell_eq b_val (Str (py ''No'')))
      then A_lebih_kuat
      else if (cell_eq b_val (Str (py ''Yes'')) \<and> isin a_val [py ''Partial'', py ''No''])
              \<or> (cell_eq b_val (Str (py ''Partial'')) \<and> cell_eq a_val (Str (py ''No'')))
      then B_lebih_kuat
      else Berbeda)"

fun note_text :: "pystr \<Rightarrow> pystr \<Rightarrow> verdict \<Rightarrow> pystr" where
  "note_text country_a country_b Sama = py ''Sama''"
| "note_text country_a country_b A_lebih_kuat = country_a @ py '' lebih kuat''"
| "note_text country_a country_b B_lebih_kuat = country_b @ py '' lebih kuat''"
| "note_text country_a country_b Berbeda = py ''Berbeda''"

text \<open>
  A Python dictionary with string keys, as the list of its items in insertion order.
  Setting a key that is present replaces its value in place; a new key is appended.
\<close>

type_synonym pydict = "(pystr \<times> cell) list"

fun dict_set :: "pydict \<Rightarrow> pystr \<Rightarrow> cell \<Rightarrow> pydict" where
  "dict_set [] k v = [(k, v)]"
| "dict_set ((k', v') # d) k v =
     (if k' = k then (k', v) # d else (k', v') # dict_set d k v)"

text \<open>
  One entry of \<open>compare_rows\<close> is the dictionary literal with the keys \<open>Kategori\<close>,
  \<open>country_a\<close>, \<open>country_b\<close> and \<open>Catatan\<close>, set in this order: where two of the keys are
  the same string, the later value stands at the place of the first.
\<close>

fun compare_loop ::
  "pystr \<Rightarrow> pystr \<Rightarrow> row \<Rightarrow> row \<Rightarrow> column list \<Rightarrow> pydict list \<Rightarrow> pydict list" where
  "compare_loop country_a country_b row_a row_b [] compare_rows = compare_rows"
| "compare_loop country_a country_b row_a row_b (col # cols) compare_rows =
     (let a_val = getitem row_a col; b_val = getitem row_b col;
          note = note_text country_a country_b (compare_values a_val b_val)
      in compare_loop country_a country_b row_a row_b cols
           (compare_rows @
            [dict_set (dict_set (dict_set (dict_set []
               (py ''Kategori'') (Str (CATEGORY_LABELS col)))
               country_a a_val)
               country_b b_val)
               (py ''Catatan'') (Str note)]))"

text \<open>
  \<open>pd.DataFrame(compare_rows)[key]\<close>: the column of a key, row by row; \<open>None\<close> where a
  row has no such key.
\<close>

definition frame_column :: "pydict list \<Rightarrow> pystr \<Rightarrow> cell option list" where
  "frame_column rows key = map (\<lambda>d. map_of d key) rows"

text \<open>
  The text of a float with one decimal, as an f-string prints it: the digits of the
  integer part, a point, the tenths digit. \<open>completeness_pct\<close> is never negative.
\<close>

fun digits :: "nat \<Rightarrow> pystr" where
  "digits n = (if n < 10 then [48 + n] else digits (n div 10) @ [48 + n mod 10])"

declare digits.simps [simp del]

definition fmt_float :: "real \<Rightarrow> pystr" where
  "fmt_float x = (let k = nat \<lfloor>x * 10\<rfloor> in digits (k div 10) @ py ''.'' @ digits (k mod 10))"

definition summary :: "pystr \<Rightarrow> pystr \<Rightarrow> real \<Rightarrow> real \<Rightarrow> pystr" where
  "summary country_a country_b score_a score_b =
     (if score_a > score_b then
        py ''Secara umum **'' @ country_a
        @ py ''** terlihat lebih lengkap dalam data contoh ini ('' @ fmt_float score_a
        @ py ''%) dibanding **'' @ country_b @ py ''** ('' @ fmt_float score_b @ py ''%).''
      else if score_b > score_a then
        py ''Secara umum **'' @ country_b
        @ py ''** terlihat lebih lengkap dalam data contoh ini ('' @ fmt_float score_b
        @ py ''%) dibanding **'' @ country_a @ py ''** ('' @ fmt_float score_a @ py ''%).''
      else
        py ''Secara umum **'' @ country_a @ py ''** dan **'' @ country_b
        @ py ''** memiliki tingkat kelengkapan yang setara ('' @ fmt_float score_a
        @ py ''%).'')"

text \<open>
  \<open>df[df["country"] == name].iloc[0]\<close>: the first row whose country is the name;
  \<open>iloc[0]\<close> on an empty selection raises \<open>IndexError\<close>.
\<close>

datatype error = IndexError

definition iloc0 :: "'a list \<Rightarrow> error + 'a" where
  "iloc0 xs = (case xs of [] \<Rightarrow> Inl IndexError | x # _ \<Rightarrow> Inr x)"

definition lookup_country :: "row list \<Rightarrow> pystr \<Rightarrow> error + row" where
  "lookup_country df name = iloc0 (filter (\<lambda>r. cell_eq (country r) (Str name)) df)"

text \<open>
  The comparator section for the two selected countries. With at least two entries in
  \<open>countries\<close> it looks both rows up and shows the table of notes and the summary
  sentence; with fewer it compares nothing and shows a message.
\<close>

datatype comparator_view = Comparison "pydict list" pystr | Info pystr

definition compare :: "row list \<Rightarrow> pystr \<Rightarrow> pystr \<Rightarrow> error + comparator_view" where
  "compare df country_a country_b =
     (if length (countries df) \<ge> 2 then
        (case lookup_country df country_a of
           Inl e \<Rightarrow> Inl e
         | Inr row_a \<Rightarrow>
             (case lookup_country df country_b of
                Inl e \<Rightarrow> Inl e
              | Inr row_b \<Rightarrow>
                  Inr (Comparison
                    (compare_loop country_a country_b row_a row_b POLICY_COLUMNS [])
                    (summary country_a country_b
                       (completeness_pct row_a) (completeness_pct row_b)))))
      else Inr (Info (py ''Data negara belum cukup untuk komparasi.'')))"

text \<open>What the section shows: the column \<open>Catatan\<close> of the table, and the summary.\<close>

fun notes_shown :: "error + comparator_view \<Rightarrow> cell option list" where
  "notes_shown (Inr (Comparison rows s)) = frame_column rows (py ''Catatan'')"
| "notes_shown _ = []"

fun summary_shown :: "error + comparator_view \<Rightarrow> pystr option" where
  "summary_shown (Inr (Comparison rows s)) = Some s"
| "summary_shown _ = None"

section \<open>The specification's verdict\<close>





text \<open>The summary sentence for two equally complete countries, with the score it embeds.\<close>

definition setara :: "pystr \<Rightarrow> pystr \<Rightarrow> real \<Rightarrow> pystr" where
  "setara country_a country_b score =
     py ''Secara umum **'' @ country_a @ py ''** dan **'' @ country_b
     @ py ''** memiliki tingkat kelengkapan yang setara ('' @ fmt_float score
     @ py ''%).''"

section \<open>Example rows\<close>

text \<open>A row with the given country and review status whose six policy fields all hold \<open>v\<close>.\<close>

definition example_row :: "cell \<Rightarrow> cell \<Rightarrow> cell \<Rightarrow> csv_row" where
  "example_row name status v =
     \<lparr>country = name, last_update = Str (py ''2026-02-20''), review_status = status,
      prevention = v, administrative = v, criminal_justice = v, surveillance = v,
      rehab_reintegration = v, women_children_notes = v, notes_text = NaN\<rparr>"

text \<open>Two rows in the manner of the script's sample data.\<close>

definition example_table :: "csv_row list" where
  "example_table =
     [example_row (Str (py ''Indonesia'')) (Str (py ''Green'')) (Str (py ''Yes'')),
      example_row (Str (py ''Iraq'')) (Str (py ''Red'')) (Str (py ''No''))]"

text \<open>
  A table in which one country has missing policy fields, and a table in which two
  different records carry the same country.
\<close>

definition missing_table :: "csv_row list" where
  "missing_table =
     [example_row (Str (py ''X'')) (Str (py ''Green'')) NaN,
      example_row (Str (py ''Y'')) (Str (py ''Red'')) (Str (py ''Yes''))]"

definition duplicate_table :: "csv_row list" where
  "duplicate_table =
     [example_row (Str (py ''Indonesia'')) (Str (py ''Green'')) (Str (py ''Yes'')),
      example_row (Str (py ''Indonesia'')) (Str (py ''Red'')) (Str (py ''No'')),
      example_row (Str (py ''Iraq'')) (Str (py ''Red'')) (Str (py ''No''))]"

text \<open>
  A cell, and a row in its six policy fields, with the text \<open>l\<close> put before and \<open>t\<close> after
  every string; a missing value stays missing.
\<close>

fun pad_cell :: "pystr \<Rightarrow> pystr \<Rightarrow> cell \<Rightarrow> cell" where
  "pad_cell l t (Str s) = Str (l @ s @ t)"
| "pad_cell l t NaN = NaN"

definition pad_row :: "pystr \<Rightarrow> pystr \<Rightarrow> 'a csv_row_scheme \<Rightarrow> 'a csv_row_scheme" where
  "pad_row l t r =
     r\<lparr>prevention := pad_cell l t (prevention r),
       administrative := pad_cell l t (administrative r),
       criminal_justice := pad_cell l t (criminal_justice r),
       surveillance := pad_cell l t (surveillance r),
       rehab_reintegration := pad_cell l t (rehab_reintegration r),
       women_children_notes := pad_cell l t (women_children_notes r)\<rparr>"

section \<open>Properties of gap counting\<close>

lemma gap_loop_acc:
  "gap_loop dataframe cols acc =
     acc + (\<Sum>col\<leftarrow>cols. count_eq (series dataframe col) (py ''No''))"
  by (induction cols arbitrary: acc) auto

lemma cell_eq_Str: "cell_eq v (Str s) \<longleftrightarrow> v = Str s"
  by (cases v) auto

lemma count_eq_Nil: "count_eq (series [] col) s = 0"
  by (simp add: count_eq_def series_def)

lemma policy_values_getitem: "map (getitem r) POLICY_COLUMNS = policy_values r"
  by (simp add: POLICY_COLUMNS_def policy_values_def)

lemma no_fields_columns:
  "no_fields r = length (filter (\<lambda>col. getitem r col = Str (py ''No'')) POLICY_COLUMNS)"
  by (simp add: no_fields_def POLICY_COLUMNS_def policy_values_def)

lemma count_eq_Cons:
  "count_eq (series (r # dataframe) col) s =
     (if getitem r col = Str s then 1 else 0) + count_eq (series dataframe col) s"
  by (simp add: count_eq_def series_def cell_eq_Str)

text \<open>
  C3: for every collection of records, the gap count is the number of policy-field
  values, over all records and the six fields \<open>prevention\<close>, \<open>administrative\<close>,
  \<open>criminal_justice\<close>, \<open>surveillance\<close>, \<open>rehab_reintegration\<close> and
  \<open>women_children_notes\<close> of each, that are exactly the string \<open>No\<close>.
  A value that is anything else (another spelling, a padded \<open>No\<close>, a missing value)
  adds nothing, since the right-hand side counts equality with \<open>No\<close> only.
\<close>

theorem count_gap_fields_exact: "count_gap_fields dataframe = spec_gapCount dataframe"
proof (induction dataframe)
  case Nil
  show ?case
    by (simp add: count_gap_fields_def spec_gapCount_def gap_loop_acc POLICY_COLUMNS_def
        count_eq_Nil)
next
  case (Cons r dataframe)
  then show ?case
    by (simp add: count_gap_fields_def spec_gapCount_def gap_loop_acc POLICY_COLUMNS_def
        count_eq_Cons no_fields_columns)
qed

section \<open>Properties of completeness scoring\<close>

lemma py_literals_distinct:
  "py ''Yes'' \<noteq> py ''Partial''" "py ''Yes'' \<noteq> py ''No''" "py ''Partial'' \<noteq> py ''No''"
  by (simp_all add: py_def)

lemma length_POLICY_COLUMNS: "length POLICY_COLUMNS = 6"
  by (simp add: POLICY_COLUMNS_def)

lemma scores_loop_acc:
  "scores_loop row cols acc =
     acc @ map (\<lambda>col. dict_get YES_SCORE (strip (str (getitem row col))) 0) cols"
  by (induction cols arbitrary: acc) (simp_all add: Let_def)

lemma dict_get_YES_SCORE: "dict_get YES_SCORE s 0 = spec_score s"
  using py_literals_distinct by (simp add: dict_get_def YES_SCORE_def spec_score_def)

lemma calc_eq_stripped: "calc_country_completeness r = stripped_completenessPct r"
proof -
  have "map (\<lambda>col. spec_score (strip (str (getitem r col)))) POLICY_COLUMNS =
      map (\<lambda>v. spec_score (strip (str v))) (policy_values r)"
    by (simp add: policy_values_getitem [symmetric] comp_def)
  moreover have "length (policy_values r) = 6"
    by (simp add: policy_values_def)
  ultimately show ?thesis
    by (simp add: calc_country_completeness_def stripped_completenessPct_def scores_loop_acc
        dict_get_YES_SCORE Let_def mult.commute)
qed

lemma spec_score_bounds: "0 \<le> spec_score s" "spec_score s \<le> 1"
  by (simp_all add: spec_score_def)

lemma py_round1_nonneg:
  assumes "0 \<le> x"
  shows "0 \<le> py_round1 x"
proof -
  have "0 \<le> \<lfloor>x * 10\<rfloor>" using assms by simp
  then show ?thesis by (simp add: py_round1_def Let_def)
qed

lemma py_round1_le:
  assumes "x \<le> 100"
  shows "py_round1 x \<le> 100"
proof (cases "\<lfloor>x * 10\<rfloor> = 1000")
  case True
  have "x * 10 \<le> 1000" using assms by simp
  moreover have "real_of_int \<lfloor>x * 10\<rfloor> = 1000" using True by simp
  ultimately have "x * 10 - real_of_int \<lfloor>x * 10\<rfloor> \<le> 0" by simp
  then show ?thesis using True by (simp add: py_round1_def Let_def)
next
  case False
  have "\<lfloor>x * 10\<rfloor> \<le> \<lfloor>1000::real\<rfloor>" using assms by (intro floor_mono) simp
  then have "\<lfloor>x * 10\<rfloor> \<le> 1000" by simp
  with False have "\<lfloor>x * 10\<rfloor> + 1 \<le> 1000" by linarith
  then have "real_of_int (\<lfloor>x * 10\<rfloor> + 1) \<le> 1000" by linarith
  then show ?thesis by (simp add: py_round1_def Let_def)
qed

lemma py_round1_0: "py_round1 0 = 0"
  by (simp add: py_round1_def Let_def)

lemma py_round1_100: "py_round1 100 = 100"
  by (simp add: py_round1_def Let_def)

lemma stripped_bounds:
  "0 \<le> stripped_completenessPct r" "stripped_completenessPct r \<le> 100"
proof -
  let ?f = "\<lambda>v. spec_score (strip (str v))"
  have "0 \<le> sum_list (map ?f (policy_values r))"
    by (rule sum_list_nonneg) (auto simp: spec_score_bounds)
  then show "0 \<le> stripped_completenessPct r"
    unfolding stripped_completenessPct_def by (intro py_round1_nonneg) simp
  have "sum_list (map ?f (policy_values r)) \<le> sum_list (map (\<lambda>v. 1) (policy_values r))"
    by (rule sum_list_mono) (simp add: spec_score_bounds)
  then have "sum_list (map ?f (policy_values r)) \<le> 6"
    by (simp add: policy_values_def)
  then show "stripped_completenessPct r \<le> 100"
    unfolding stripped_completenessPct_def by (intro py_round1_le) simp
qed

lemma getitem_example_row: "getitem (example_row name status v) col = v"
  by (cases col) (simp_all add: example_row_def)

lemma policy_values_example_row: "policy_values (example_row name status v) = [v, v, v, v, v, v]"
  by (simp add: policy_values_def example_row_def)

lemma strip_padded_Yes: "strip (py '' Yes '') = py ''Yes''"
  by (simp add: py_def strip_def lstrip_def rstrip_def py_isspace_def)

text \<open>
  C1, as stated, fails: the score is not taken from the field value itself. A record
  whose six fields all hold \<open>Yes\<close> between two spaces has completeness \<open>100.0\<close>, where
  the mapping of the raw values (anything but the three literals scores \<open>0.0\<close>) gives
  \<open>0.0\<close>.
\<close>

theorem completeness_raw_mapping_counterexample:
  "calc_country_completeness
     (example_row (Str (py ''X'')) (Str (py ''Green'')) (Str (py '' Yes ''))) = 100
   \<and> spec_completenessPct
     (example_row (Str (py ''X'')) (Str (py ''Green'')) (Str (py '' Yes ''))) = 0"
proof -
  have "spec_score (py ''Yes'') = 1" "spec_score (py '' Yes '') = 0"
    by (simp_all add: spec_score_def py_def)
  then show ?thesis
    by (simp add: calc_eq_stripped stripped_completenessPct_def spec_completenessPct_def
        policy_values_example_row strip_padded_Yes py_round1_100 py_round1_0)
qed

text \<open>
  C1, amended: for every record, the completeness score equals
  \<open>round(100 \<times> mean of the six field scores, 1)\<close>, where each field value, converted to
  text and stripped of leading and trailing whitespace, maps via
  \<open>Yes \<mapsto> 1.0, Partial \<mapsto> 0.5, No \<mapsto> 0.0\<close>, any other string \<open>\<mapsto> 0.0\<close>; and the result is
  always in \<open>[0, 100]\<close>.
\<close>

theorem completeness_stripped_mapping:
  "calc_country_completeness r = stripped_completenessPct r
   \<and> 0 \<le> calc_country_completeness r \<and> calc_country_completeness r \<le> 100"
  by (simp add: calc_eq_stripped stripped_bounds)

section \<open>Properties of the comparator's verdict\<close>




lemma map_of_dict_set: "map_of (dict_set d k v) = (map_of d)(k \<mapsto> v)"
  by (induction d k v rule: dict_set.induct) (auto simp: fun_eq_iff)

lemma compare_loop_acc:
  "compare_loop ca cb ra rb cols acc =
     acc @ map (\<lambda>col.
        dict_set (dict_set (dict_set (dict_set []
          (py ''Kategori'') (Str (CATEGORY_LABELS col)))
          ca (getitem ra col))
          cb (getitem rb col))
          (py ''Catatan'')
          (Str (note_text ca cb (compare_values (getitem ra col) (getitem rb col))))) cols"
  by (induction cols arbitrary: acc) (simp_all add: Let_def)

lemma frame_column_Catatan:
  "frame_column (compare_loop ca cb ra rb cols []) (py ''Catatan'') =
     map (\<lambda>col. Some (Str (note_text ca cb
            (compare_values (getitem ra col) (getitem rb col))))) cols"
  by (simp add: frame_column_def compare_loop_acc map_of_dict_set comp_def)


section \<open>Properties of loading and filtering\<close>

lemma isin_iff: "isin v ss \<longleftrightarrow> (\<exists>s \<in> set ss. v = Str s)"
  by (induction ss) (auto simp: cell_eq_Str)

lemma set_dropna: "set (dropna vs) = {s. Str s \<in> set vs}"
  by (induction vs rule: dropna.induct) auto

lemma set_unique: "set (unique xs) = set xs"
  by (simp add: unique_def)

lemma set_countries: "set (countries df) = {s. Str s \<in> country ` set df}"
  by (simp add: countries_def set_unique set_dropna)

lemma isin_countries:
  assumes "r \<in> set df"
  shows "isin (country r) (countries df) \<longleftrightarrow> country r \<noteq> NaN"
proof (cases "country r")
  case (Str s)
  with assms have "s \<in> set (countries df)"
    by (force simp: set_countries)
  with Str show ?thesis by (auto simp: isin_iff)
next
  case NaN
  then show ?thesis by (simp add: isin_iff)
qed

lemma filtered_df_None:
  "filtered_df df sc ss None =
     filter (\<lambda>r. isin (country r) sc \<and> isin (review_status r) ss) df"
  by (simp add: filtered_df_def)

lemma filtered_empty_countries: "filtered_df df [] ss cat = []"
  by (cases cat) (simp_all add: filtered_df_def)

lemma filtered_empty_status: "filtered_df df sc [] cat = []"
  by (cases cat) (simp_all add: filtered_df_def)

lemma filter_all_iff:
  "filtered_df df (countries df) STATUS_OPTIONS None = df \<longleftrightarrow>
     (\<forall>r \<in> set df. country r \<noteq> NaN \<and> isin (review_status r) STATUS_OPTIONS)"
proof -
  have "filtered_df df (countries df) STATUS_OPTIONS None = df \<longleftrightarrow>
     (\<forall>r \<in> set df. isin (country r) (countries df)
        \<and> isin (review_status r) STATUS_OPTIONS)"
    unfolding filtered_df_None by (rule filter_id_conv)
  then show ?thesis by (auto simp: isin_countries)
qed

lemma filter_all_exact:
  "filtered_df df (countries df) STATUS_OPTIONS None =
     filter (\<lambda>r. country r \<noteq> NaN \<and> isin (review_status r) STATUS_OPTIONS) df"
  unfolding filtered_df_None by (rule filter_cong) (simp_all add: isin_countries)

lemma country_load: "map country (load table) = map country table"
  by (simp add: load_def csv_row.defs row.defs comp_def)

lemma truncate_extend: "csv_row.truncate (csv_row.extend r m) = r"
  by (cases r) (simp add: csv_row.defs)

lemma truncate_load: "map csv_row.truncate (load table) = table"
  by (simp add: load_def comp_def truncate_extend)

lemma country_example:
  "country (example_row n st v) = n" "review_status (example_row n st v) = st"
  by (simp_all add: example_row_def)

lemma countries_dropna_rows: "countries df = countries (filter (\<lambda>r. country r \<noteq> NaN) df)"
proof -
  have "dropna (map country df) = dropna (map country (filter (\<lambda>r. country r \<noteq> NaN) df))"
  proof (induction df)
    case Nil
    show ?case by simp
  next
    case (Cons r df)
    then show ?case by (cases "country r") simp_all
  qed
  then show ?thesis by (simp add: countries_def)
qed

lemma countries_load: "countries (load table) = countries table"
  by (simp add: countries_def country_load)

lemma filtered_df_drops_NaN:
  "filtered_df df sc ss cat = filtered_df (filter (\<lambda>r. country r \<noteq> NaN) df) sc ss cat"
proof -
  have "isin (country r) sc \<Longrightarrow> country r \<noteq> NaN" for r :: "'a csv_row_scheme"
    by (auto simp: isin_iff)
  then have "filter (\<lambda>r. isin (country r) sc \<and> isin (review_status r) ss) df =
    filter (\<lambda>r. isin (country r) sc \<and> isin (review_status r) ss)
      (filter (\<lambda>r. country r \<noteq> NaN) df)"
    by (auto intro: filter_cong)
  then show ?thesis by (simp add: filtered_df_def)
qed

text \<open>
  C5, as stated, fails: loading excludes no row. A table of one row whose country is
  missing loads as one record, its country still missing.
\<close>

theorem load_keeps_null_country_counterexample:
  "map country (load [example_row NaN (Str (py ''Green'')) (Str (py ''Yes''))]) = [NaN]"
  by (simp add: country_load country_example)

text \<open>
  C5, amended: during load no input row is dropped, neither for a missing optional
  field nor for an empty or null country: the loaded table is the input table, row by
  row and in order, with the completeness column added. The rows whose country is null
  are left out, without any error, only from the list of selectable countries, and
  with it from the result of every filter: both are what they would be had those rows
  been removed.
\<close>

theorem load_keeps_every_row:
  "map csv_row.truncate (load table) = table
   \<and> countries (load table) = countries (filter (\<lambda>r. country r \<noteq> NaN) table)
   \<and> filtered_df (load table) selected_countries selected_status selected_category =
       filtered_df (filter (\<lambda>r. country r \<noteq> NaN) (load table))
         selected_countries selected_status selected_category"
  using countries_dropna_rows [of table] filtered_df_drops_NaN [of "load table"]
  by (simp add: truncate_load countries_load)

text \<open>
  C6: for every dataset, filtering with an empty country selection or an empty status
  selection yields the empty sequence, whatever the category focus.
\<close>

theorem filter_empty_selection:
  "filtered_df df [] selected_status selected_category = []
   \<and> filtered_df df selected_countries [] selected_category = []"
  by (simp add: filtered_empty_countries filtered_empty_status)

text \<open>
  C7, as stated, fails: a record whose review status is none of the three offered
  statuses is preserved by the loader and removed by the filter, although every
  country and every status is selected.
\<close>

theorem filter_all_not_identity_counterexample:
  "filtered_df (load [example_row (Str (py ''X'')) (Str (py ''Blue'')) (Str (py ''Yes''))])
     (countries (load [example_row (Str (py ''X'')) (Str (py ''Blue'')) (Str (py ''Yes''))]))
     STATUS_OPTIONS None = []
   \<and> length (load [example_row (Str (py ''X'')) (Str (py ''Blue'')) (Str (py ''Yes''))]) = 1"
proof -
  have "\<not> isin (Str (py ''Blue'')) STATUS_OPTIONS"
    by (simp add: STATUS_OPTIONS_def py_def)
  then show ?thesis
    by (simp add: filtered_df_None load_def csv_row.defs row.defs example_row_def)
qed

text \<open>
  C7, amended: filtering with all countries of the dataset, all three statuses and no
  category focus returns the full dataset in its original order exactly when every
  record has a country that is not null and a review status among \<open>Green\<close>, \<open>Yellow\<close>
  and \<open>Red\<close>; in every case it returns exactly those records, in their order, and the
  other records are removed.
\<close>

theorem filter_all_identity:
  "(filtered_df df (countries df) STATUS_OPTIONS None = df \<longleftrightarrow>
      (\<forall>r \<in> set df. country r \<noteq> NaN \<and> isin (review_status r) STATUS_OPTIONS))
   \<and> filtered_df df (countries df) STATUS_OPTIONS None =
       filter (\<lambda>r. country r \<noteq> NaN \<and> isin (review_status r) STATUS_OPTIONS) df"
  using filter_all_iff [of df] filter_all_exact [of df] by blast

theorem filter_all_identity_witness:
  "filtered_df (load example_table) (countries (load example_table)) STATUS_OPTIONS None
     = load example_table"
proof -
  have "isin (Str (py ''Green'')) STATUS_OPTIONS" "isin (Str (py ''Red'')) STATUS_OPTIONS"
    by (simp_all add: STATUS_OPTIONS_def py_def)
  then have "\<forall>r \<in> set (load example_table).
      country r \<noteq> NaN \<and> isin (review_status r) STATUS_OPTIONS"
    by (simp add: load_def example_table_def csv_row.defs row.defs example_row_def)
  with filter_all_identity [of "load example_table"] show ?thesis by simp
qed

section \<open>Properties of the KPI summary\<close>

text \<open>
  C8: summarizing the empty record sequence yields total count 0, average completeness
  0.0 (a number, whatever the mean of an empty series would be), gap count 0 and a zero
  count for every status; the summary is a value, no error arises.
\<close>

theorem summarize_empty:
  "summarize mean_round1 [] =
     \<lparr>total_country = 0, green_count = 0, yellow_count = 0, red_count = 0,
      avg_completeness = Some 0, gap_fields = 0\<rparr>"
  by (simp add: summarize_def count_eq_def)

section \<open>Properties of whitespace in scoring and gap counting\<close>

lemma lstrip_pad: "\<forall>c \<in> set l. py_isspace c \<Longrightarrow> lstrip (l @ s) = lstrip s"
  by (simp add: lstrip_def dropWhile_append2)

lemma rstrip_pad:
  assumes "\<forall>c \<in> set t. py_isspace c"
  shows "rstrip (s @ t) = rstrip s"
proof -
  have "dropWhile py_isspace (rev t @ rev s) = dropWhile py_isspace (rev s)"
    by (rule dropWhile_append2) (use assms in simp)
  then show ?thesis by (simp add: rstrip_def)
qed

lemma strip_pad:
  assumes l: "\<forall>c \<in> set l. py_isspace c" and t: "\<forall>c \<in> set t. py_isspace c"
  shows "strip (l @ s @ t) = strip s"
proof (cases "\<forall>c \<in> set s. py_isspace c")
  case True
  then have "\<forall>c \<in> set (s @ t). py_isspace c" using t by auto
  then have "lstrip (s @ t) = []" "lstrip s = []"
    using True by (simp_all add: lstrip_def)
  then show ?thesis by (simp add: strip_def lstrip_pad [OF l])
next
  case False
  then obtain c where "c \<in> set s" "\<not> py_isspace c" by blast
  then have "lstrip (s @ t) = lstrip s @ t"
    by (simp add: lstrip_def dropWhile_append1)
  then show ?thesis by (simp add: strip_def lstrip_pad [OF l] rstrip_pad [OF t])
qed

lemma strip_literals:
  "strip (py ''Yes'') = py ''Yes''" "strip (py ''Partial'') = py ''Partial''"
  "strip (py ''No'') = py ''No''"
  by (simp_all add: py_def strip_def lstrip_def rstrip_def py_isspace_def)

lemma spec_score_literals:
  "spec_score (py ''Yes'') = 1" "spec_score (py ''Partial'') = 1 / 2" "spec_score (py ''No'') = 0"
  using py_literals_distinct by (simp_all add: spec_score_def)

lemma calc_example_row:
  "calc_country_completeness (example_row n st v) = py_round1 (100 * spec_score (strip (str v)))"
  by (simp add: calc_eq_stripped stripped_completenessPct_def policy_values_example_row)

lemma gap_example_row:
  "count_gap_fields [example_row n st v] = (if v = Str (py ''No'') then 6 else 0)"
  by (simp add: count_gap_fields_def gap_loop_acc POLICY_COLUMNS_def count_eq_Cons count_eq_Nil
      getitem_example_row)

lemma padded_eq: "l @ s @ t = s \<longleftrightarrow> l = [] \<and> t = []"
proof
  assume "l @ s @ t = s"
  then have "length (l @ s @ t) = length s" by simp
  then show "l = [] \<and> t = []" by simp
qed simp

lemma getitem_pad_row: "getitem (pad_row l t r) col = pad_cell l t (getitem r col)"
  by (cases col) (simp_all add: pad_row_def)

lemma strip_str_pad_cell:
  assumes "\<forall>c \<in> set l. py_isspace c" and "\<forall>c \<in> set t. py_isspace c"
  shows "strip (str (pad_cell l t v)) = strip (str v)"
  by (cases v) (simp_all add: strip_pad [OF assms])

lemma calc_pad_row:
  assumes "\<forall>c \<in> set l. py_isspace c" and "\<forall>c \<in> set t. py_isspace c"
  shows "calc_country_completeness (pad_row l t r) = calc_country_completeness r"
  by (simp add: calc_eq_stripped stripped_completenessPct_def policy_values_getitem [symmetric]
      comp_def getitem_pad_row strip_str_pad_cell [OF assms])

lemma pad_cell_No:
  assumes "\<forall>c \<in> set l. py_isspace c" and "\<forall>c \<in> set t. py_isspace c"
  shows "pad_cell l t v = Str (py ''No'') \<longleftrightarrow> l = [] \<and> t = [] \<and> v = Str (py ''No'')"
proof (cases v)
  case NaN
  then show ?thesis by simp
next
  case (Str s)
  have N: "\<not> py_isspace (hd (py ''No''))" "\<not> py_isspace (last (py ''No''))"
    by (simp_all add: py_def py_isspace_def)
  have "l = []" if "l @ s @ t = py ''No''"
  proof (rule ccontr)
    assume "l \<noteq> []"
    then have "hd (l @ s @ t) \<in> set l" by simp
    with assms(1) that N(1) show False by auto
  qed
  moreover have "t = []" if "l @ s @ t = py ''No''"
  proof (rule ccontr)
    assume "t \<noteq> []"
    then have "last (l @ s @ t) \<in> set t" by simp
    with assms(2) that N(2) show False by auto
  qed
  ultimately show ?thesis using Str by auto
qed

lemma pad_cell_Nil: "pad_cell [] [] v = v"
  by (cases v) simp_all

lemma gap_single_row: "count_gap_fields [r] = int (no_fields r)"
  by (simp add: count_gap_fields_def gap_loop_acc POLICY_COLUMNS_def count_eq_Cons count_eq_Nil
      no_fields_columns)

lemma gap_pad_row:
  assumes "\<forall>c \<in> set l. py_isspace c" and "\<forall>c \<in> set t. py_isspace c"
  shows "count_gap_fields [pad_row l t r] = (if l = [] \<and> t = [] then count_gap_fields [r] else 0)"
  by (cases "l = [] \<and> t = []")
    (auto simp: gap_single_row no_fields_columns getitem_pad_row pad_cell_No [OF assms]
      pad_cell_Nil filter_empty_conv)

text \<open>
  C10: completeness scoring strips leading and trailing whitespace from a field value
  before it looks the value up, and gap counting compares the unstripped value with
  \<open>No\<close>. So putting whitespace around the field values of a record never changes its
  completeness score, and leaves it without any counted gap. In particular \<open>Yes\<close>
  between whitespace scores \<open>1.0\<close> (six such fields give 100), and \<open>No\<close> between
  whitespace scores \<open>0.0\<close> yet is not counted as a gap.
\<close>

theorem strip_in_scoring_not_in_gaps:
  assumes "\<forall>c \<in> set l. py_isspace c" and "\<forall>c \<in> set t. py_isspace c"
  shows "calc_country_completeness (pad_row l t r) = calc_country_completeness r
   \<and> count_gap_fields [pad_row l t r] =
       (if l = [] \<and> t = [] then count_gap_fields [r] else 0)
   \<and> calc_country_completeness (example_row n st (Str (l @ py ''Yes'' @ t))) = 100
   \<and> calc_country_completeness (example_row n st (Str (l @ py ''No'' @ t))) = 0
   \<and> count_gap_fields [example_row n st (Str (l @ py ''No'' @ t))] =
       (if l = [] \<and> t = [] then 6 else 0)"
  by (simp add: calc_pad_row [OF assms] gap_pad_row [OF assms] calc_example_row
      strip_pad [OF assms] strip_literals spec_score_literals
      py_round1_0 py_round1_100 gap_example_row padded_eq)

text \<open>
  The same at one space on each side: \<open>Yes\<close> between spaces scores in full, \<open>No\<close>
  between spaces scores nothing and is no gap, and the six gaps of a record of bare
  \<open>No\<close> values are gone once the values are padded.
\<close>

theorem strip_in_scoring_not_in_gaps_witness:
  "calc_country_completeness
     (example_row (Str (py ''X'')) (Str (py ''Green'')) (Str (py '' Yes ''))) = 100
   \<and> calc_country_completeness
     (example_row (Str (py ''X'')) (Str (py ''Green'')) (Str (py '' No ''))) = 0
   \<and> count_gap_fields
     [example_row (Str (py ''X'')) (Str (py ''Green'')) (Str (py '' No ''))] = 0
   \<and> count_gap_fields
     [example_row (Str (py ''X'')) (Str (py ''Green'')) (Str (py ''No''))] = 6
   \<and> count_gap_fields
     [pad_row (py '' '') (py '' '')
        (example_row (Str (py ''X'')) (Str (py ''Green'')) (Str (py ''No'')))] = 0"
proof -
  have sp: "\<forall>c \<in> set (py '' ''). py_isspace c"
    by (simp add: py_def py_isspace_def)
  have "py '' Yes '' = py '' '' @ py ''Yes'' @ py '' ''"
    "py '' No '' = py '' '' @ py ''No'' @ py '' ''"
    by (simp_all add: py_def)
  moreover have "py '' '' \<noteq> []" by (simp add: py_def)
  ultimately show ?thesis
    using strip_in_scoring_not_in_gaps [OF sp sp,
        of "example_row (Str (py ''X'')) (Str (py ''Green'')) (Str (py ''No''))"
          "Str (py ''X'')" "Str (py ''Green'')"]
    by (simp add: gap_example_row)
qed

section \<open>Properties of the lookup and of the comparison of a record with itself\<close>

lemma note_text_Sama: "note_text ca cb v = py ''Sama'' \<longleftrightarrow> v = Sama"
proof (cases v)
  case A_lebih_kuat
  have "last (ca @ py '' lebih kuat'') \<noteq> last (py ''Sama'')" by (simp add: py_def)
  then have "ca @ py '' lebih kuat'' \<noteq> py ''Sama''" by metis
  with A_lebih_kuat show ?thesis by simp
next
  case B_lebih_kuat
  have "last (cb @ py '' lebih kuat'') \<noteq> last (py ''Sama'')" by (simp add: py_def)
  then have "cb @ py '' lebih kuat'' \<noteq> py ''Sama''" by metis
  with B_lebih_kuat show ?thesis by simp
qed (simp_all add: py_def)

lemma compare_values_self: "compare_values a a = (if a = NaN then Berbeda else Sama)"
  by (cases a) (simp_all add: compare_values_def)

lemma lookup_country_cases:
  "lookup_country df name =
     (case filter (\<lambda>r. country r = Str name) df of [] \<Rightarrow> Inl IndexError | r # _ \<Rightarrow> Inr r)"
  by (simp add: lookup_country_def iloc0_def cell_eq_Str)

lemma lookup_country_find:
  "lookup_country df name =
     (case find (\<lambda>r. country r = Str name) df of None \<Rightarrow> Inl IndexError | Some r \<Rightarrow> Inr r)"
  by (induction df) (simp_all add: lookup_country_cases)

lemma lookup_country_first:
  "lookup_country df name = Inr r \<longleftrightarrow>
     (\<exists>i<length df. df ! i = r \<and> country r = Str name
        \<and> (\<forall>j<i. country (df ! j) \<noteq> Str name))"
proof -
  have "lookup_country df name = Inr r \<longleftrightarrow> find (\<lambda>r. country r = Str name) df = Some r"
    by (simp add: lookup_country_find split: option.splits)
  then show ?thesis
    by (auto simp: find_Some_iff)
qed

lemma summary_self: "summary c c x x = setara c c x"
  by (simp add: summary_def setara_def)

lemma map_eq_replicate: "map f xs = replicate (length xs) y \<longleftrightarrow> (\<forall>x \<in> set xs. f x = y)"
  by (induction xs) auto

lemma notes_self:
  "frame_column (compare_loop c c A A POLICY_COLUMNS []) (py ''Catatan'') =
     map (\<lambda>v. Some (Str (note_text c c (compare_values v v)))) (policy_values A)"
  by (simp add: frame_column_Catatan policy_values_getitem [symmetric] comp_def)

lemma notes_self_Sama:
  "frame_column (compare_loop c c A A POLICY_COLUMNS []) (py ''Catatan'') =
       replicate 6 (Some (Str (py ''Sama'')))
     \<longleftrightarrow> (\<forall>v \<in> set (policy_values A). v \<noteq> NaN)"
proof -
  have "length (policy_values A) = 6"
    by (simp add: policy_values_def)
  with map_eq_replicate [of "\<lambda>v. Some (Str (note_text c c (compare_values v v)))"
      "policy_values A" "Some (Str (py ''Sama''))"]
  show ?thesis
    by (simp add: notes_self note_text_Sama compare_values_self)
qed

text \<open>
  C9, amended: for every record A that the comparator can look up, comparing A with
  itself yields the summary sentence for equally complete countries, containing A's
  completeness score with one decimal; the note is \<open>Sama\<close> (equal) for every one of the
  six categories exactly when none of A's six policy fields is missing.
\<close>

theorem compare_self:
  assumes "2 \<le> length (countries df)" and "lookup_country df c = Inr A"
  shows "\<exists>rows. compare df c c = Inr (Comparison rows (setara c c (completeness_pct A)))
     \<and> (frame_column rows (py ''Catatan'') = replicate 6 (Some (Str (py ''Sama'')))
          \<longleftrightarrow> (\<forall>v \<in> set (policy_values A). v \<noteq> NaN))"
proof -
  let ?rows = "compare_loop c c A A POLICY_COLUMNS []"
  have "compare df c c = Inr (Comparison ?rows (setara c c (completeness_pct A)))"
    using assms by (simp add: compare_def summary_self)
  with notes_self_Sama [of c A] show ?thesis by blast
qed

lemma replicate_6: "replicate 6 x = [x, x, x, x, x, x]"
  by (simp add: numeral_eq_Suc)

lemma digits_small: "n < 10 \<Longrightarrow> digits n = [48 + n]"
  by (simp add: digits.simps)

lemma fmt_float_100: "fmt_float 100 = py ''100.0''"
proof -
  have "digits 100 = [49, 48, 48]"
    by (simp add: digits.simps [of 100] digits.simps [of 10] digits_small)
  then show ?thesis by (simp add: fmt_float_def py_def digits_small)
qed

lemma hd_load:
  "hd (load (r # table)) = csv_row.extend r (row.fields (calc_country_completeness r))"
  by (simp add: load_def)

lemma getitem_extend: "getitem (csv_row.extend r m) col = getitem r col"
  by (cases col) (simp_all add: csv_row.defs)

lemma policy_values_extend: "policy_values (csv_row.extend r m) = policy_values r"
  by (simp add: policy_values_def csv_row.defs)

lemma country_extend: "country (csv_row.extend r m) = country r"
  by (simp add: csv_row.defs)

lemma completeness_pct_extend: "completeness_pct (csv_row.extend r (row.fields x)) = x"
  by (simp add: csv_row.defs row.defs)

lemma lookup_country_hd:
  "country r = Str name \<Longrightarrow>
     lookup_country (load (r # table)) name = Inr (hd (load (r # table)))"
  by (simp add: lookup_country_cases load_def country_extend)

lemma length_countries_load:
  "length (countries (load table)) = length (remdups (rev (dropna (map country table))))"
  by (simp add: countries_def unique_def country_load)

lemma set_countries_load: "set (countries (load table)) = set (dropna (map country table))"
  by (simp add: countries_def set_unique country_load)

lemma country_example_table:
  "map country example_table = [Str (py ''Indonesia''), Str (py ''Iraq'')]"
  by (simp add: example_table_def country_example)

lemma country_missing_table: "map country missing_table = [Str (py ''X''), Str (py ''Y'')]"
  by (simp add: missing_table_def country_example)

lemma country_duplicate_table:
  "map country duplicate_table =
     [Str (py ''Indonesia''), Str (py ''Indonesia''), Str (py ''Iraq'')]"
  by (simp add: duplicate_table_def country_example)

lemma names_distinct:
  "py ''Indonesia'' \<noteq> py ''Iraq''" "py ''Atlantis'' \<noteq> py ''Indonesia''"
  "py ''Atlantis'' \<noteq> py ''Iraq''" "py ''X'' \<noteq> py ''Y''"
  by (simp_all add: py_def)

text \<open>
  The same for the first example row, whose fields are all \<open>Yes\<close>: six notes \<open>Sama\<close> and
  the summary with the score \<open>100.0\<close>.
\<close>

theorem compare_self_witness:
  "notes_shown (compare (load example_table) (py ''Indonesia'') (py ''Indonesia'')) =
     replicate 6 (Some (Str (py ''Sama'')))
   \<and> summary_shown (compare (load example_table) (py ''Indonesia'') (py ''Indonesia'')) =
     Some (py ''Secara umum **Indonesia** dan **Indonesia** memiliki tingkat kelengkapan yang setara (100.0%).'')"
proof -
  let ?r = "example_row (Str (py ''Indonesia'')) (Str (py ''Green'')) (Str (py ''Yes''))"
  let ?A = "hd (load example_table)"
  have A: "?A = csv_row.extend ?r (row.fields (calc_country_completeness ?r))"
    by (simp add: example_table_def hd_load)
  have n: "2 \<le> length (countries (load example_table))"
    using names_distinct by (simp add: length_countries_load country_example_table)
  have lk: "lookup_country (load example_table) (py ''Indonesia'') = Inr ?A"
    unfolding example_table_def by (rule lookup_country_hd) (simp add: country_example)
  have vals: "\<forall>v \<in> set (policy_values ?A). v \<noteq> NaN"
    by (simp add: A policy_values_extend policy_values_example_row)
  have "completeness_pct ?A = 100"
    by (simp add: A completeness_pct_extend calc_example_row strip_literals
        spec_score_literals py_round1_100)
  then have s: "setara (py ''Indonesia'') (py ''Indonesia'') (completeness_pct ?A) =
      py ''Secara umum **Indonesia** dan **Indonesia** memiliki tingkat kelengkapan yang setara (100.0%).''"
    by (simp add: setara_def fmt_float_100 py_def)
  from compare_self [OF n lk] vals s show ?thesis by auto
qed

text \<open>
  C9, as stated, fails: a missing value is not equal to itself. In a table of two
  countries, the record of the first has its policy fields missing; compared with
  itself it gets the note \<open>Berbeda\<close> (divergent) in every category, not \<open>Sama\<close>.
\<close>

theorem compare_self_missing_counterexample:
  "notes_shown (compare (load missing_table) (py ''X'') (py ''X'')) =
     replicate 6 (Some (Str (py ''Berbeda'')))"
proof -
  let ?r = "example_row (Str (py ''X'')) (Str (py ''Green'')) NaN"
  have n: "2 \<le> length (countries (load missing_table))"
    using names_distinct by (simp add: length_countries_load country_missing_table)
  have "lookup_country (load missing_table) (py ''X'') = Inr (hd (load missing_table))"
    unfolding missing_table_def by (rule lookup_country_hd) (simp add: country_example)
  moreover have "policy_values (hd (load missing_table)) = [NaN, NaN, NaN, NaN, NaN, NaN]"
    by (simp add: missing_table_def hd_load policy_values_extend policy_values_example_row)
  ultimately show ?thesis
    using n by (simp add: compare_def notes_self compare_values_self replicate_6)
qed

lemma lookup_country_Inr_iff:
  "(\<exists>r. lookup_country df name = Inr r) \<longleftrightarrow> name \<in> set (countries df)"
proof -
  have "filter (\<lambda>r. country r = Str name) df \<noteq> [] \<longleftrightarrow> name \<in> set (countries df)"
    by (force simp: set_countries filter_empty_conv)
  then show ?thesis
    by (auto simp: lookup_country_cases split: list.splits)
qed

lemma lookup_country_Inl_iff:
  "lookup_country df name = Inl IndexError \<longleftrightarrow> name \<notin> set (countries df)"
  using lookup_country_Inr_iff [of df name]
  by (cases "lookup_country df name") (auto intro: error.exhaust)

lemma compare_Inl_iff:
  "compare df country_a country_b = Inl IndexError \<longleftrightarrow>
     2 \<le> length (countries df)
     \<and> \<not> (country_a \<in> set (countries df) \<and> country_b \<in> set (countries df))"
proof (cases "2 \<le> length (countries df)")
  case True
  then have "compare df country_a country_b = Inl IndexError \<longleftrightarrow>
      lookup_country df country_a = Inl IndexError
      \<or> lookup_country df country_b = Inl IndexError"
    by (auto simp: compare_def split: sum.splits intro: error.exhaust)
  with True show ?thesis by (simp add: lookup_country_Inl_iff)
next
  case False
  then show ?thesis by (simp add: compare_def)
qed

lemma nth_load:
  "i < length table \<Longrightarrow>
     load table ! i = csv_row.extend (table ! i) (row.fields (calc_country_completeness (table ! i)))"
  by (simp add: load_def)

text \<open>
  C4, as stated, fails: the lookup does not resolve to exactly one record. In a table
  the script accepts, two different records carry the country \<open>Indonesia\<close>; the lookup
  returns the first of them and ignores the second.
\<close>

theorem lookup_two_records_counterexample:
  "lookup_country (load duplicate_table) (py ''Indonesia'') = Inr (load duplicate_table ! 0)
   \<and> country (load duplicate_table ! 1) = Str (py ''Indonesia'')
   \<and> load duplicate_table ! 1 \<noteq> load duplicate_table ! 0
   \<and> length (countries (load duplicate_table)) = 2"
proof -
  have 0: "load duplicate_table ! 0 = hd (load duplicate_table)"
    by (simp add: duplicate_table_def load_def)
  have "lookup_country (load duplicate_table) (py ''Indonesia'') = Inr (hd (load duplicate_table))"
    unfolding duplicate_table_def by (rule lookup_country_hd) (simp add: country_example)
  moreover have "country (load duplicate_table ! 1) = Str (py ''Indonesia'')"
    by (simp add: nth_load duplicate_table_def country_extend country_example)
  moreover have "review_status (load duplicate_table ! 1) \<noteq> review_status (load duplicate_table ! 0)"
    by (simp add: nth_load duplicate_table_def csv_row.defs country_example py_def)
  then have "load duplicate_table ! 1 \<noteq> load duplicate_table ! 0"
    by metis
  moreover have "length (countries (load duplicate_table)) = 2"
    using names_distinct by (simp add: length_countries_load country_duplicate_table)
  ultimately show ?thesis by (simp add: 0)
qed

text \<open>
  C4, amended: for every country identifier, lookup in the dataset resolves to the
  first record with that country (country values are not checked to be unique, and
  further records with the same country are ignored), and it resolves exactly when the
  identifier is one of the dataset's countries, which is where the comparator's
  identifiers come from. The comparison, which runs when the dataset has at least two
  countries, fails with \<open>IndexError\<close> (the specification's NotFound) exactly when one
  of the two identifiers does not resolve.
\<close>

theorem comparator_lookup:
  "(lookup_country df name = Inr r \<longleftrightarrow>
      (\<exists>i<length df. df ! i = r \<and> country r = Str name
         \<and> (\<forall>j<i. country (df ! j) \<noteq> Str name)))
   \<and> ((\<exists>r. lookup_country df name = Inr r) \<longleftrightarrow> name \<in> set (countries df))
   \<and> (compare df country_a country_b = Inl IndexError \<longleftrightarrow>
        2 \<le> length (countries df)
        \<and> \<not> (country_a \<in> set (countries df) \<and> country_b \<in> set (countries df)))"
  using lookup_country_first [of df name r]
  by (simp add: lookup_country_Inr_iff compare_Inl_iff)

text \<open>
  The same on the table with the repeated country: \<open>Iraq\<close> resolves to the third
  record, before which no record has that country; comparing it with a country the
  dataset does not have fails.
\<close>

theorem comparator_lookup_witness:
  "lookup_country (load duplicate_table) (py ''Iraq'') = Inr (load duplicate_table ! 2)
   \<and> compare (load duplicate_table) (py ''Iraq'') (py ''Atlantis'') = Inl IndexError"
proof -
  let ?df = "load duplicate_table"
  have c: "map country ?df = [Str (py ''Indonesia''), Str (py ''Indonesia''), Str (py ''Iraq'')]"
    by (simp add: country_load country_duplicate_table)
  have len: "length ?df = 3"
    by (simp add: load_def duplicate_table_def)
  have nth: "country (?df ! 0) = Str (py ''Indonesia'')" "country (?df ! 1) = Str (py ''Indonesia'')"
    "country (?df ! 2) = Str (py ''Iraq'')"
    by (simp_all add: nth_load duplicate_table_def country_extend country_example)
  have "\<forall>j<2. country (?df ! j) \<noteq> Str (py ''Iraq'')"
    using names_distinct nth by (auto simp: less_Suc_eq numeral_2_eq_2)
  with len nth have first: "\<exists>i<length ?df. ?df ! i = ?df ! 2 \<and> country (?df ! 2) = Str (py ''Iraq'')
      \<and> (\<forall>j<i. country (?df ! j) \<noteq> Str (py ''Iraq''))"
    by (intro exI [of _ 2]) simp
  have n: "2 \<le> length (countries ?df)"
    using names_distinct by (simp add: length_countries_load country_duplicate_table)
  have "py ''Atlantis'' \<notin> set (countries ?df)"
    using names_distinct by (simp add: set_countries_load country_duplicate_table)
  with first n comparator_lookup [of ?df "py ''Iraq''" "?df ! 2" "py ''Iraq''" "py ''Atlantis''"]
  show ?thesis by simp
qed

end
